theory Spec2Isabelle
  imports Main
begin

section \<open>The hook script claude-web-state.py\<close>

text \<open>
  The script is started once per lifecycle event. It reads one JSON document from
  standard input, builds an event record, hands it to \<open>send_event\<close> (a Unix socket
  client) and, for a permission request, turns the monitor's reply into a line on
  standard output. The model below follows the source function by function. Whatever
  the script obtains from outside (the parsed standard input, the process table, the
  terminal names, the behaviour of the socket) is an explicit argument; whatever it does
  to the outside (socket calls, lines printed, the exit status) is part of the result.
\<close>

subsection \<open>JSON values and Python dictionaries\<close>

text \<open>
  The values \<open>json.load\<close> produces. A float is kept as mantissa and binary exponent,
  or as one of the special values the parser accepts; only its truth value is ever used.
  A dictionary keeps its insertion order, as Python's does.
\<close>

datatype pyfloat = Finite int int | Infinity bool | NaN

datatype json =
    JNull
  | JBool bool
  | JInt int
  | JFloat pyfloat
  | JStr string
  | JArr "json list"
  | JObj "(string \<times> json) list"

type_synonym dict = "(string \<times> json) list"

text \<open>\<open>d[k] = v\<close>: an existing key keeps its place, a new key goes to the end.\<close>

fun dict_set :: "dict \<Rightarrow> string \<Rightarrow> json \<Rightarrow> dict" where
  "dict_set [] k v = [(k, v)]"
| "dict_set ((k', v') # d) k v =
     (if k' = k then (k, v) # d else (k', v') # dict_set d k v)"

text \<open>\<open>d.get(k, default)\<close>; Python's \<open>None\<close> is \<open>JNull\<close>.\<close>

definition dict_get :: "dict \<Rightarrow> string \<Rightarrow> json \<Rightarrow> json" where
  "dict_get d k dflt = (case map_of d k of None \<Rightarrow> dflt | Some v \<Rightarrow> v)"

definition keys :: "dict \<Rightarrow> string set" where
  "keys d = fst ` set d"

text \<open>Python's truth value of a JSON value, as \<open>if x:\<close> and \<open>x or y\<close> test it.\<close>

fun truthy :: "json \<Rightarrow> bool" where
  "truthy JNull = False"
| "truthy (JBool b) = b"
| "truthy (JInt i) = (i \<noteq> 0)"
| "truthy (JFloat (Finite m ex)) = (m \<noteq> 0)"
| "truthy (JFloat (Infinity s)) = True"
| "truthy (JFloat NaN) = True"
| "truthy (JStr s) = (s \<noteq> [])"
| "truthy (JArr xs) = (xs \<noteq> [])"
| "truthy (JObj kvs) = (kvs \<noteq> [])"

text \<open>The exceptions that no handler of the script catches.\<close>

datatype exn = AttributeError | UnicodeDecodeError | RecursionError | ValueError

subsection \<open>The world outside the process\<close>

text \<open>
  \<open>ps_tty\<close> is the value of \<open>result.stdout.strip()\<close> at line 31, the standard output
  of \<open>ps -p <ppid> -o tty=\<close> without the white space around it, or \<open>None\<close> when
  \<open>subprocess.run\<close> raises (no such program, the 2 second timeout). The two terminal
  names are the results of \<open>os.ttyname\<close> on standard input and output, \<open>None\<close> when
  the call raises. \<open>py_repr\<close> is Python's own rendering of a value that is not a string,
  used when such a value is formatted into a message.
\<close>

record env =
  ppid :: int
  ps_tty :: "string option"
  stdin_ttyname :: "string option"
  stdout_ttyname :: "string option"
  py_repr :: "json \<Rightarrow> string"

text \<open>
  What \<open>json.load(sys.stdin)\<close> does: raise \<open>JSONDecodeError\<close> (\<open>StdinInvalid\<close>), raise
  something else (\<open>UnicodeDecodeError\<close> on bytes that are not text, \<open>RecursionError\<close>
  on nesting too deep, \<open>ValueError\<close> on an integer of too many digits), or return a
  value.
\<close>

datatype stdin = StdinInvalid | StdinRaises exn | StdinJson json

text \<open>
  What the monitor's end of the socket does when asked. The bytes a \<open>recv\<close> returns
  are classified by what \<open>response.decode()\<close> and \<open>json.loads\<close> make of them: no
  byte at all, bytes that do not decode, text on which \<open>json.loads\<close> raises
  \<open>JSONDecodeError\<close>, text nested so deep that it raises \<open>RecursionError\<close>, or text
  that loads to a value.
\<close>

datatype payload = EmptyBytes | InvalidUtf8 | InvalidJson | NestedTooDeep | JsonText json

datatype recv_outcome = RecvRaises | RecvBytes payload

record monitor =
  socket_ok :: bool
  connect_ok :: bool
  sendall_ok :: bool
  on_recv :: recv_outcome

text \<open>The socket calls the script makes, in order; a call that raises is listed too.\<close>

datatype sock_op =
    Socket
  | SetTimeout int
  | Connect string
  | Sendall dict
  | Recv nat
  | Close

datatype status = Exit int | Uncaught exn


record result =
  status :: status
  stdout :: "json list"
  submitted :: "dict list"
  sock_ops :: "sock_op list"

subsection \<open>Constants\<close>

definition SOCKET_PATH :: string where
  "SOCKET_PATH = ''/tmp/claude-web.sock''"

definition TIMEOUT_SECONDS :: int where
  "TIMEOUT_SECONDS = 300"

subsection \<open>\<open>get_tty\<close>\<close>

definition startswith :: "string \<Rightarrow> string \<Rightarrow> bool" where
  "startswith s p = (take (length p) s = p)"

text \<open>The first \<open>try\<close> block: the terminal of the parent as \<open>ps\<close> prints it.\<close>

definition tty_from_ps :: "env \<Rightarrow> string option" where
  "tty_from_ps e =
     (case ps_tty e of
        None \<Rightarrow> None
      | Some tty \<Rightarrow>
          (if tty \<noteq> [] \<and> tty \<noteq> ''??'' \<and> tty \<noteq> ''-'' then
             Some (if \<not> startswith tty ''/dev/'' then ''/dev/'' @ tty else tty)
           else None))"

definition get_tty :: "env \<Rightarrow> string option" where
  "get_tty e =
     (case tty_from_ps e of
        Some tty \<Rightarrow> Some tty
      | None \<Rightarrow>
          (case stdin_ttyname e of
             Some t \<Rightarrow> Some t
           | None \<Rightarrow>
               (case stdout_ttyname e of
                  Some t \<Rightarrow> Some t
                | None \<Rightarrow> None)))"

subsection \<open>\<open>send_event\<close>\<close>

text \<open>
  The result is the value returned (\<open>JNull\<close> for \<open>None\<close>) or the exception that
  escapes the handler, which catches \<open>OSError\<close> and \<open>JSONDecodeError\<close> only, together
  with the socket calls made.
\<close>

definition send_event :: "monitor \<Rightarrow> dict \<Rightarrow> (exn + json) \<times> sock_op list" where
  "send_event m event_data =
     (if \<not> socket_ok m then (Inr JNull, [Socket])
      else if \<not> connect_ok m then
        (Inr JNull, [Socket, SetTimeout TIMEOUT_SECONDS, Connect SOCKET_PATH])
      else if \<not> sendall_ok m then
        (Inr JNull, [Socket, SetTimeout TIMEOUT_SECONDS, Connect SOCKET_PATH,
                     Sendall event_data])
      else if dict_get event_data ''event_type'' JNull = JStr ''waiting_for_approval'' then
        (case on_recv m of
           RecvRaises \<Rightarrow>
             (Inr JNull, [Socket, SetTimeout TIMEOUT_SECONDS, Connect SOCKET_PATH,
                          Sendall event_data, Recv 4096])
         | RecvBytes response \<Rightarrow>
             ((case response of
                 EmptyBytes \<Rightarrow> Inr JNull
               | InvalidUtf8 \<Rightarrow> Inl UnicodeDecodeError
               | InvalidJson \<Rightarrow> Inr JNull
               | NestedTooDeep \<Rightarrow> Inl RecursionError
               | JsonText j \<Rightarrow> Inr j),
              [Socket, SetTimeout TIMEOUT_SECONDS, Connect SOCKET_PATH,
               Sendall event_data, Recv 4096, Close]))
      else
        (Inr JNull, [Socket, SetTimeout TIMEOUT_SECONDS, Connect SOCKET_PATH,
                     Sendall event_data, Close]))"

subsection \<open>\<open>main\<close>\<close>

text \<open>Lines 194 and 195: the last statement, after which the script ends normally.\<close>

definition fire_and_forget :: "monitor \<Rightarrow> dict \<Rightarrow> result" where
  "fire_and_forget m event_data =
     (case send_event m event_data of
        (Inl x, tr) \<Rightarrow>
          \<lparr>status = Uncaught x, stdout = [], submitted = [event_data], sock_ops = tr\<rparr>
      | (Inr response, tr) \<Rightarrow>
          \<lparr>status = Exit 0, stdout = [], submitted = [event_data], sock_ops = tr\<rparr>)"

text \<open>Lines 126 to 158: send the request, wait, and print the directive.\<close>

definition await_decision :: "monitor \<Rightarrow> dict \<Rightarrow> result" where
  "await_decision m event_data =
     (case send_event m event_data of
        (Inl x, tr) \<Rightarrow>
          \<lparr>status = Uncaught x, stdout = [], submitted = [event_data], sock_ops = tr\<rparr>
      | (Inr response, tr) \<Rightarrow>
          (if truthy response then
             (case response of
                JObj r \<Rightarrow>
                  (let decision = dict_get r ''decision'' (JStr ''ask'');
                       reason = dict_get r ''reason'' (JStr '''')
                   in
                   if decision = JStr ''allow'' then
                     \<lparr>status = Exit 0,
                      stdout = [JObj [(''hookSpecificOutput'',
                                 JObj [(''hookEventName'', JStr ''PermissionRequest''),
                                       (''decision'', JObj [(''behavior'', JStr ''allow'')])])]],
                      submitted = [event_data], sock_ops = tr\<rparr>
                   else if decision = JStr ''deny'' then
                     \<lparr>status = Exit 0,
                      stdout = [JObj [(''hookSpecificOutput'',
                                 JObj [(''hookEventName'', JStr ''PermissionRequest''),
                                       (''decision'',
                                        JObj [(''behavior'', JStr ''deny''),
                                              (''message'',
                                               if truthy reason then reason
                                               else JStr ''Denied by user via Claude Web Monitor'')])])]],
                      submitted = [event_data], sock_ops = tr\<rparr>
                   else
                     \<lparr>status = Exit 0, stdout = [], submitted = [event_data], sock_ops = tr\<rparr>)
              | _ \<Rightarrow>
                  \<lparr>status = Uncaught AttributeError, stdout = [], submitted = [event_data],
                   sock_ops = tr\<rparr>)
           else
             \<lparr>status = Exit 0, stdout = [], submitted = [event_data], sock_ops = tr\<rparr>))"

text \<open>\<open>str(v)\<close> inside the f-string: a string is itself, anything else its rendering.\<close>

definition py_str :: "env \<Rightarrow> json \<Rightarrow> string" where
  "py_str e v = (case v of JStr s \<Rightarrow> s | _ \<Rightarrow> py_repr e v)"

text \<open>
  The body of \<open>main\<close> once standard input has parsed to a dictionary \<open>d\<close>
  (lines 80 to 195).
\<close>

definition dispatch :: "env \<Rightarrow> dict \<Rightarrow> monitor \<Rightarrow> result" where
  "dispatch e d m =
     (let session_id = dict_get d ''session_id'' (JStr ''unknown'');
          event = dict_get d ''hook_event_name'' (JStr '''');
          cwd = dict_get d ''cwd'' (JStr '''');
          tool_input = dict_get d ''tool_input'' (JObj []);
          claude_pid = ppid e;
          tty = get_tty e;
          event_data = [(''session_id'', session_id),
                        (''cwd'', cwd),
                        (''pid'', JInt claude_pid),
                        (''tty'', case tty of None \<Rightarrow> JNull | Some p \<Rightarrow> JStr p)]
      in
      if event = JStr ''UserPromptSubmit'' then
        fire_and_forget m (dict_set event_data ''event_type'' (JStr ''processing''))
      else if event = JStr ''PreToolUse'' then
        (let ed1 = dict_set event_data ''event_type'' (JStr ''running_tool'');
             ed2 = dict_set ed1 ''tool_name'' (dict_get d ''tool_name'' JNull);
             ed3 = dict_set ed2 ''tool_input'' tool_input;
             tool_use_id = dict_get d ''tool_use_id'' JNull
         in fire_and_forget m
              (if truthy tool_use_id then dict_set ed3 ''tool_use_id'' tool_use_id else ed3))
      else if event = JStr ''PostToolUse'' then
        (let ed1 = dict_set event_data ''event_type'' (JStr ''processing'');
             ed2 = dict_set ed1 ''tool_name'' (dict_get d ''tool_name'' JNull);
             ed3 = dict_set ed2 ''tool_input'' tool_input;
             tool_use_id = dict_get d ''tool_use_id'' JNull
         in fire_and_forget m
              (if truthy tool_use_id then dict_set ed3 ''tool_use_id'' tool_use_id else ed3))
      else if event = JStr ''PermissionRequest'' then
        (let ed1 = dict_set event_data ''event_type'' (JStr ''waiting_for_approval'');
             ed2 = dict_set ed1 ''tool_name'' (dict_get d ''tool_name'' JNull);
             ed3 = dict_set ed2 ''tool_input'' tool_input
         in await_decision m ed3)
      else if event = JStr ''Notification'' then
        (let notification_type = dict_get d ''notification_type'' JNull in
         if notification_type = JStr ''permission_prompt'' then
           \<lparr>status = Exit 0, stdout = [], submitted = [], sock_ops = []\<rparr>
         else
           (let ed1 = (if notification_type = JStr ''idle_prompt''
                       then dict_set event_data ''event_type'' (JStr ''waiting_for_input'')
                       else dict_set event_data ''event_type'' (JStr ''notification''));
                ed2 = dict_set ed1 ''title'' notification_type;
                ed3 = dict_set ed2 ''message'' (dict_get d ''message'' JNull)
            in fire_and_forget m ed3))
      else if event = JStr ''Stop'' then
        fire_and_forget m (dict_set event_data ''event_type'' (JStr ''waiting_for_input''))
      else if event = JStr ''SubagentStop'' then
        fire_and_forget m (dict_set event_data ''event_type'' (JStr ''waiting_for_input''))
      else if event = JStr ''SessionStart'' then
        fire_and_forget m (dict_set event_data ''event_type'' (JStr ''session_start''))
      else if event = JStr ''SessionEnd'' then
        fire_and_forget m (dict_set event_data ''event_type'' (JStr ''session_end''))
      else if event = JStr ''PreCompact'' then
        fire_and_forget m (dict_set event_data ''event_type'' (JStr ''compacting''))
      else
        (let ed1 = dict_set event_data ''event_type'' (JStr ''notification'');
             ed2 = dict_set ed1 ''message'' (JStr (''Unknown event: '' @ py_str e event))
         in fire_and_forget m ed2))"

text \<open>
  \<open>main\<close>: a \<open>JSONDecodeError\<close> of the parse exits with 1, any other exception of
  the parse goes uncaught; a value that is not a dictionary has no \<open>get\<close>, so the
  first field access (line 80) raises \<open>AttributeError\<close>.
\<close>

definition main :: "env \<Rightarrow> stdin \<Rightarrow> monitor \<Rightarrow> result" where
  "main e inp m =
     (case inp of
        StdinInvalid \<Rightarrow> \<lparr>status = Exit 1, stdout = [], submitted = [], sock_ops = []\<rparr>
      | StdinRaises x \<Rightarrow>
          \<lparr>status = Uncaught x, stdout = [], submitted = [], sock_ops = []\<rparr>
      | StdinJson data \<Rightarrow>
          (case data of
             JObj d \<Rightarrow> dispatch e d m
           | _ \<Rightarrow> \<lparr>status = Uncaught AttributeError, stdout = [], submitted = [],
                   sock_ops = []\<rparr>))"

definition is_object :: "json \<Rightarrow> bool" where
  "is_object v = (case v of JObj d \<Rightarrow> True | _ \<Rightarrow> False)"

subsection \<open>Sample inputs\<close>

text \<open>
  Environments, monitors and inbound records on which the properties below are run;
  \<open>idle_record\<close> is the record the script builds from \<open>idle_notice\<close> in \<open>env0\<close>.
\<close>

definition env0 :: env where
  "env0 = \<lparr>ppid = 4242, ps_tty = Some ''ttys003'', stdin_ttyname = None,
           stdout_ttyname = None, py_repr = (\<lambda>v. ''?'')\<rparr>"

definition reachable :: "recv_outcome \<Rightarrow> monitor" where
  "reachable r = \<lparr>socket_ok = True, connect_ok = True, sendall_ok = True, on_recv = r\<rparr>"

definition unreachable :: monitor where
  "unreachable = \<lparr>socket_ok = True, connect_ok = False, sendall_ok = True,
                  on_recv = RecvRaises\<rparr>"

definition pre_tool :: dict where
  "pre_tool = [(''session_id'', JStr ''s1''), (''hook_event_name'', JStr ''PreToolUse''),
               (''cwd'', JStr ''/w''), (''tool_name'', JStr ''Bash''),
               (''tool_input'', JObj [(''command'', JStr ''ls'')]),
               (''tool_use_id'', JStr ''toolu_01'')]"

definition pre_tool_empty_id :: dict where
  "pre_tool_empty_id = [(''hook_event_name'', JStr ''PreToolUse''), (''tool_name'', JStr ''Bash''),
                        (''tool_use_id'', JStr '''')]"

definition idle_notice :: dict where
  "idle_notice = [(''hook_event_name'', JStr ''Notification''),
                  (''notification_type'', JStr ''idle_prompt''),
                  (''title'', JStr ''Build finished''),
                  (''message'', JStr ''waiting'')]"

definition no_terminal :: env where
  "no_terminal = \<lparr>ppid = 1, ps_tty = Some ''??'', stdin_ttyname = None,
                  stdout_ttyname = None, py_repr = (\<lambda>v. ''?'')\<rparr>"

definition hook :: "string \<Rightarrow> dict" where
  "hook name = [(''hook_event_name'', JStr name)]"

definition idle_record :: dict where
  "idle_record = [(''session_id'', JStr ''unknown''), (''cwd'', JStr ''''), (''pid'', JInt 4242),
                  (''tty'', JStr ''/dev/ttys003''), (''event_type'', JStr ''waiting_for_input''),
                  (''title'', JStr ''idle_prompt''), (''message'', JStr ''waiting'')]"

definition on_stdout :: env where
  "on_stdout = \<lparr>ppid = 1, ps_tty = None, stdin_ttyname = None,
                stdout_ttyname = Some ''/dev/pts/3'', py_repr = (\<lambda>v. ''?'')\<rparr>"

definition stop_record :: "json \<Rightarrow> dict" where
  "stop_record tty = [(''session_id'', JStr ''unknown''), (''cwd'', JStr ''''), (''pid'', JInt 1),
                      (''tty'', tty), (''event_type'', JStr ''waiting_for_input'')]"

definition permission_prompt :: dict where
  "permission_prompt = [(''hook_event_name'', JStr ''Notification''),
                        (''notification_type'', JStr ''permission_prompt''),
                        (''message'', JStr ''Claude needs your permission'')]"

definition permission_request :: dict where
  "permission_request = [(''session_id'', JStr ''s1''),
                         (''hook_event_name'', JStr ''PermissionRequest''),
                         (''tool_name'', JStr ''Bash''),
                         (''tool_input'', JObj [(''command'', JStr ''rm -r build'')])]"

definition says :: "dict \<Rightarrow> monitor" where
  "says r = reachable (RecvBytes (JsonText (JObj r)))"

subsection \<open>What is observed of a run\<close>

text \<open>
  Two conditions \<open>main\<close> branches on: the suppressed notification (lines 160 to
  164) and the permission request (line 119). \<open>tty_field\<close>
  is the JSON value of Python's \<open>tty\<close> variable, \<open>writes\<close> counts the \<open>sendall\<close>
  calls of a run.
\<close>

definition suppressed :: "dict \<Rightarrow> bool" where
  "suppressed d =
     (dict_get d ''hook_event_name'' (JStr '''') = JStr ''Notification'' \<and>
      dict_get d ''notification_type'' JNull = JStr ''permission_prompt'')"

definition is_permission_request :: "dict \<Rightarrow> bool" where
  "is_permission_request d = (dict_get d ''hook_event_name'' (JStr '''') = JStr ''PermissionRequest'')"

definition tty_field :: "env \<Rightarrow> json" where
  "tty_field e = (case get_tty e of None \<Rightarrow> JNull | Some p \<Rightarrow> JStr p)"

definition writes :: "sock_op list \<Rightarrow> nat" where
  "writes tr = length (filter (\<lambda>op. case op of Sendall x \<Rightarrow> True | _ \<Rightarrow> False) tr)"

subsection \<open>The dispatch table of the specification\<close>

text \<open>
  Section 4.1 of the specification as data: for each hook name the canonical event type
  and the names of the extra fields of the outbound record. \<open>Notification\<close> is
  decided by its \<open>notification_type\<close>; a name outside the table falls through.
\<close>

definition known_hooks :: "(string \<times> string \<times> string list) list" where
  "known_hooks =
     [(''UserPromptSubmit'', ''processing'', []),
      (''PreToolUse'', ''running_tool'', [''tool_name'', ''tool_input'', ''tool_use_id'']),
      (''PostToolUse'', ''processing'', [''tool_name'', ''tool_input'', ''tool_use_id'']),
      (''PermissionRequest'', ''waiting_for_approval'', [''tool_name'', ''tool_input'']),
      (''Stop'', ''waiting_for_input'', []),
      (''SubagentStop'', ''waiting_for_input'', []),
      (''SessionStart'', ''session_start'', []),
      (''SessionEnd'', ''session_end'', []),
      (''PreCompact'', ''compacting'', [])]"

datatype row = Suppressed | Row string "string list" | Fallback

definition table_row :: "string \<Rightarrow> json \<Rightarrow> row" where
  "table_row name ntype =
     (if name = ''Notification'' then
        (if ntype = JStr ''permission_prompt'' then Suppressed
         else if ntype = JStr ''idle_prompt'' then Row ''waiting_for_input'' [''title'', ''message'']
         else Row ''notification'' [''title'', ''message''])
      else (case map_of known_hooks name of
              Some (ty, fs) \<Rightarrow> Row ty fs
            | None \<Rightarrow> Fallback))"

definition column :: "row \<Rightarrow> string list" where
  "column rw = (case rw of Suppressed \<Rightarrow> [] | Row ty fs \<Rightarrow> fs | Fallback \<Rightarrow> [''message''])"

definition base_fields :: "string list" where
  "base_fields = [''session_id'', ''cwd'', ''pid'', ''tty'', ''event_type'']"

definition extras :: "dict \<Rightarrow> dict" where
  "extras r = filter (\<lambda>kv. fst kv \<notin> set base_fields) r"

definition source_field :: "string \<Rightarrow> string" where
  "source_field f = (if f = ''title'' then ''notification_type'' else f)"

definition absent_value :: "string \<Rightarrow> json" where
  "absent_value f = (if f = ''tool_input'' then JObj [] else JNull)"

definition copied :: "(json \<Rightarrow> bool) \<Rightarrow> dict \<Rightarrow> string \<Rightarrow> dict" where
  "copied worth d f =
     (if f = ''tool_use_id'' then
        (case map_of d f of None \<Rightarrow> [] | Some v \<Rightarrow> if worth v then [(f, v)] else [])
      else [(f, dict_get d (source_field f) (absent_value f))])"

definition base_record :: "env \<Rightarrow> dict \<Rightarrow> dict" where
  "base_record e d =
     [(''session_id'', dict_get d ''session_id'' (JStr ''unknown'')),
      (''cwd'', dict_get d ''cwd'' (JStr '''')),
      (''pid'', JInt (ppid e)),
      (''tty'', case get_tty e of None \<Rightarrow> JNull | Some p \<Rightarrow> JStr p)]"

definition table_record :: "env \<Rightarrow> dict \<Rightarrow> string \<Rightarrow> dict list" where
  "table_record e d name =
     (case table_row name (dict_get d ''notification_type'' JNull) of
        Suppressed \<Rightarrow> []
      | Row ty fs \<Rightarrow>
          [base_record e d @ [(''event_type'', JStr ty)] @ concat (map (copied truthy d) fs)]
      | Fallback \<Rightarrow>
          [base_record e d @ [(''event_type'', JStr ''notification''),
                              (''message'', JStr (''Unknown event: '' @ name))]])"

definition expected :: "(json \<Rightarrow> bool) \<Rightarrow> dict \<Rightarrow> string \<Rightarrow> (json option \<times> dict) list" where
  "expected worth d name =
     (case table_row name (dict_get d ''notification_type'' JNull) of
        Suppressed \<Rightarrow> []
      | Row ty fs \<Rightarrow> [(Some (JStr ty), concat (map (copied worth d) fs))]
      | Fallback \<Rightarrow>
          [(Some (JStr ''notification''), [(''message'', JStr (''Unknown event: '' @ name))])])"

definition observed :: "result \<Rightarrow> (json option \<times> dict) list" where
  "observed R = map (\<lambda>r. (map_of r ''event_type'', extras r)) (submitted R)"

text \<open>
  When \<open>tool_use_id\<close> is copied is a parameter of the table: \<open>any_value\<close> reads
  "if present" as the key being there; the script tests the truth value of the field.
\<close>

definition any_value :: "json \<Rightarrow> bool" where
  "any_value v = True"

subsection \<open>The directives and the monitor's answers, as the specification names them\<close>

text \<open>
  The two lines of section 6 of the specification, and the fixed text of a denial
  without a reason. \<open>replies m j\<close>: the monitor accepts the request and answers with
  the JSON text \<open>j\<close>. \<open>no_decision\<close>: a connection error, a timeout (or any other
  error) of the read, or a closed connection without a byte. \<open>decision_readable\<close>: the
  exchange ends in one of the ways the script handles: there is no reply to read, or
  \<open>json.loads\<close> rejects the reply with \<open>JSONDecodeError\<close>, or the reply is JSON
  whose value is an object or false in Python's sense. \<open>expected_sends\<close>: how many
  times \<open>send_event\<close> is called. \<open>parse_fails\<close>: \<open>json.load\<close> returns no value.
  \<open>fallback_tty\<close>: the terminal name of standard input, else that of standard
  output, else null.
\<close>

definition expected_sends :: "stdin \<Rightarrow> nat" where
  "expected_sends inp =
     (case inp of
        StdinInvalid \<Rightarrow> 0
      | StdinRaises x \<Rightarrow> 0
      | StdinJson v \<Rightarrow> (case v of JObj d \<Rightarrow> if suppressed d then 0 else 1 | _ \<Rightarrow> 0))"

definition allow_directive :: json where
  "allow_directive =
     JObj [(''hookSpecificOutput'',
            JObj [(''hookEventName'', JStr ''PermissionRequest''),
                  (''decision'', JObj [(''behavior'', JStr ''allow'')])])]"

definition deny_directive :: "json \<Rightarrow> json" where
  "deny_directive msg =
     JObj [(''hookSpecificOutput'',
            JObj [(''hookEventName'', JStr ''PermissionRequest''),
                  (''decision'', JObj [(''behavior'', JStr ''deny''), (''message'', msg)])])]"

definition default_deny_message :: string where
  "default_deny_message = ''Denied by user via Claude Web Monitor''"

definition replies :: "monitor \<Rightarrow> json \<Rightarrow> bool" where
  "replies m j =
     (socket_ok m \<and> connect_ok m \<and> sendall_ok m \<and> on_recv m = RecvBytes (JsonText j))"

definition connection_error :: "monitor \<Rightarrow> bool" where
  "connection_error m = (\<not> socket_ok m \<or> \<not> connect_ok m \<or> \<not> sendall_ok m)"

definition no_decision :: "monitor \<Rightarrow> bool" where
  "no_decision m =
     (connection_error m \<or> on_recv m = RecvRaises \<or> on_recv m = RecvBytes EmptyBytes)"



text \<open>
  What \<open>ps\<close> prints in place of a terminal name for a process that has none: nothing,
  \<open>??\<close> (BSD, macOS), \<open>-\<close> or \<open>?\<close> (Linux).
\<close>

definition ps_placeholders :: "string list" where
  "ps_placeholders = ['''', ''??'', ''-'', ''?'']"

definition fallback_tty :: "env \<Rightarrow> json" where
  "fallback_tty e =
     (case stdin_ttyname e of
        Some t \<Rightarrow> JStr t
      | None \<Rightarrow> (case stdout_ttyname e of Some t \<Rightarrow> JStr t | None \<Rightarrow> JNull))"

section \<open>Properties\<close>

subsection \<open>The branches of \<open>main\<close>\<close>

lemmas run_defs = main_def dispatch_def fire_and_forget_def await_decision_def send_event_def
  dict_get_def get_tty_def tty_from_ps_def startswith_def py_str_def
  TIMEOUT_SECONDS_def SOCKET_PATH_def Let_def

lemma submitted_fire_and_forget [simp]: "submitted (fire_and_forget m ed) = [ed]"
  by (simp add: fire_and_forget_def split: prod.splits sum.splits)

lemma submitted_await_decision [simp]: "submitted (await_decision m ed) = [ed]"
  by (simp add: await_decision_def Let_def split: prod.splits sum.splits json.splits)

lemma dict_get_Cons:
  "dict_get ((k, v) # d) k' dflt = (if k = k' then v else dict_get d k' dflt)"
  by (simp add: dict_get_def)

lemma dict_get_Nil: "dict_get [] k dflt = dflt"
  by (simp add: dict_get_def)

lemma dispatch_cases:
  assumes s: "suppressed d \<Longrightarrow>
                P \<lparr>status = Exit 0, stdout = [], submitted = [], sock_ops = []\<rparr>"
    and a: "\<And>ed. \<not> suppressed d \<Longrightarrow> is_permission_request d \<Longrightarrow>
                dict_get ed ''event_type'' JNull = JStr ''waiting_for_approval'' \<Longrightarrow>
                map_of ed ''tty'' = Some (tty_field e) \<Longrightarrow> P (await_decision m ed)"
    and f: "\<And>ed. \<not> suppressed d \<Longrightarrow> \<not> is_permission_request d \<Longrightarrow>
                dict_get ed ''event_type'' JNull \<noteq> JStr ''waiting_for_approval'' \<Longrightarrow>
                map_of ed ''tty'' = Some (tty_field e) \<Longrightarrow> P (fire_and_forget m ed)"
  shows "P (dispatch e d m)"
proof -
  define event where "event = dict_get d ''hook_event_name'' (JStr '''')"
  note defs = dispatch_def Let_def event_def [symmetric] suppressed_def is_permission_request_def
    tty_field_def dict_get_Cons dict_get_Nil
  consider "event = JStr ''UserPromptSubmit''" | "event = JStr ''PreToolUse''"
    | "event = JStr ''PostToolUse''" | "event = JStr ''PermissionRequest''"
    | "event = JStr ''Notification''" | "event = JStr ''Stop''"
    | "event = JStr ''SubagentStop''" | "event = JStr ''SessionStart''"
    | "event = JStr ''SessionEnd''" | "event = JStr ''PreCompact''"
    | "event \<noteq> JStr ''UserPromptSubmit''" "event \<noteq> JStr ''PreToolUse''"
      "event \<noteq> JStr ''PostToolUse''" "event \<noteq> JStr ''PermissionRequest''"
      "event \<noteq> JStr ''Notification''" "event \<noteq> JStr ''Stop''"
      "event \<noteq> JStr ''SubagentStop''" "event \<noteq> JStr ''SessionStart''"
      "event \<noteq> JStr ''SessionEnd''" "event \<noteq> JStr ''PreCompact''"
    by argo
  then show ?thesis
  proof cases
    case 1
    have "P (fire_and_forget m ed)"
      if "dict_get ed ''event_type'' JNull \<noteq> JStr ''waiting_for_approval''"
        and "map_of ed ''tty'' = Some (tty_field e)" for ed
      using f [of ed] that 1 by (simp add: defs)
    with 1 show ?thesis by (simp add: defs)
  next
    case 2
    have "P (fire_and_forget m ed)"
      if "dict_get ed ''event_type'' JNull \<noteq> JStr ''waiting_for_approval''"
        and "map_of ed ''tty'' = Some (tty_field e)" for ed
      using f [of ed] that 2 by (simp add: defs)
    with 2 show ?thesis by (simp add: defs)
  next
    case 3
    have "P (fire_and_forget m ed)"
      if "dict_get ed ''event_type'' JNull \<noteq> JStr ''waiting_for_approval''"
        and "map_of ed ''tty'' = Some (tty_field e)" for ed
      using f [of ed] that 3 by (simp add: defs)
    with 3 show ?thesis by (simp add: defs)
  next
    case 4
    have "P (await_decision m ed)"
      if "dict_get ed ''event_type'' JNull = JStr ''waiting_for_approval''"
        and "map_of ed ''tty'' = Some (tty_field e)" for ed
      using a [of ed] that 4 by (simp add: defs)
    with 4 show ?thesis by (simp add: defs)
  next
    case 5
    show ?thesis
    proof (cases "dict_get d ''notification_type'' JNull = JStr ''permission_prompt''")
      case True
      with 5 s show ?thesis by (simp add: defs)
    next
      case False
      have "P (fire_and_forget m ed)"
        if "dict_get ed ''event_type'' JNull \<noteq> JStr ''waiting_for_approval''"
          and "map_of ed ''tty'' = Some (tty_field e)" for ed
        using f [of ed] that 5 False by (simp add: defs)
      with 5 False show ?thesis by (simp add: defs)
    qed
  next
    case 6
    have "P (fire_and_forget m ed)"
      if "dict_get ed ''event_type'' JNull \<noteq> JStr ''waiting_for_approval''"
        and "map_of ed ''tty'' = Some (tty_field e)" for ed
      using f [of ed] that 6 by (simp add: defs)
    with 6 show ?thesis by (simp add: defs)
  next
    case 7
    have "P (fire_and_forget m ed)"
      if "dict_get ed ''event_type'' JNull \<noteq> JStr ''waiting_for_approval''"
        and "map_of ed ''tty'' = Some (tty_field e)" for ed
      using f [of ed] that 7 by (simp add: defs)
    with 7 show ?thesis by (simp add: defs)
  next
    case 8
    have "P (fire_and_forget m ed)"
      if "dict_get ed ''event_type'' JNull \<noteq> JStr ''waiting_for_approval''"
        and "map_of ed ''tty'' = Some (tty_field e)" for ed
      using f [of ed] that 8 by (simp add: defs)
    with 8 show ?thesis by (simp add: defs)
  next
    case 9
    have "P (fire_and_forget m ed)"
      if "dict_get ed ''event_type'' JNull \<noteq> JStr ''waiting_for_approval''"
        and "map_of ed ''tty'' = Some (tty_field e)" for ed
      using f [of ed] that 9 by (simp add: defs)
    with 9 show ?thesis by (simp add: defs)
  next
    case 10
    have "P (fire_and_forget m ed)"
      if "dict_get ed ''event_type'' JNull \<noteq> JStr ''waiting_for_approval''"
        and "map_of ed ''tty'' = Some (tty_field e)" for ed
      using f [of ed] that 10 by (simp add: defs)
    with 10 show ?thesis by (simp add: defs)
  next
    case 11
    have "P (fire_and_forget m ed)"
      if "dict_get ed ''event_type'' JNull \<noteq> JStr ''waiting_for_approval''"
        and "map_of ed ''tty'' = Some (tty_field e)" for ed
      using f [of ed] that 11 by (simp add: defs)
    with 11 show ?thesis by (simp add: defs)
  qed
qed

lemma dict_get_Some: "map_of r k = Some v \<Longrightarrow> dict_get r k dflt = v"
  by (simp add: dict_get_def)

lemma dict_get_None: "map_of r k = None \<Longrightarrow> dict_get r k dflt = dflt"
  by (simp add: dict_get_def)

lemma fire_and_forget_result:
  "dict_get ed ''event_type'' JNull \<noteq> JStr ''waiting_for_approval'' \<Longrightarrow>
     fire_and_forget m ed =
       \<lparr>status = Exit 0, stdout = [], submitted = [ed], sock_ops = snd (send_event m ed)\<rparr>"
  by (simp add: fire_and_forget_def send_event_def)

lemma sock_ops_await_decision: "sock_ops (await_decision m ed) = snd (send_event m ed)"
  by (simp add: await_decision_def Let_def split: prod.splits sum.splits json.splits)

lemma writes_send_event:
  "writes (snd (send_event m ed)) = (if socket_ok m \<and> connect_ok m then 1 else 0)"
  by (simp add: send_event_def writes_def split: recv_outcome.splits)

lemma writes_Nil: "writes [] = 0"
  by (simp add: writes_def)

lemma no_recv_unless_approval:
  "dict_get ed ''event_type'' JNull \<noteq> JStr ''waiting_for_approval'' \<Longrightarrow>
     Recv n \<notin> set (snd (send_event m ed))"
  by (simp add: send_event_def)


lemma await_no_decision:
  assumes "dict_get ed ''event_type'' JNull = JStr ''waiting_for_approval''" and "no_decision m"
  shows "stdout (await_decision m ed) = [] \<and> status (await_decision m ed) = Exit 0"
  using assms
  by (auto simp: await_decision_def send_event_def no_decision_def connection_error_def)

lemma await_reply:
  assumes "dict_get ed ''event_type'' JNull = JStr ''waiting_for_approval''" and "replies m (JObj r)"
  shows "await_decision m ed =
     (if r = [] then
        \<lparr>status = Exit 0, stdout = [], submitted = [ed], sock_ops = snd (send_event m ed)\<rparr>
      else if dict_get r ''decision'' (JStr ''ask'') = JStr ''allow'' then
        \<lparr>status = Exit 0, stdout = [allow_directive], submitted = [ed],
         sock_ops = snd (send_event m ed)\<rparr>
      else if dict_get r ''decision'' (JStr ''ask'') = JStr ''deny'' then
        \<lparr>status = Exit 0,
         stdout = [deny_directive (if truthy (dict_get r ''reason'' (JStr ''''))
                                   then dict_get r ''reason'' (JStr '''')
                                   else JStr default_deny_message)],
         submitted = [ed], sock_ops = snd (send_event m ed)\<rparr>
      else
        \<lparr>status = Exit 0, stdout = [], submitted = [ed], sock_ops = snd (send_event m ed)\<rparr>)"
  using assms
  by (simp add: await_decision_def send_event_def replies_def Let_def allow_directive_def
        deny_directive_def default_deny_message_def)


lemma await_status: "status (await_decision m ed) \<noteq> Exit 1"
  by (simp add: await_decision_def Let_def split: prod.splits sum.splits json.splits)

lemma main_permission_request:
  assumes "is_permission_request d"
  shows "\<exists>ed. main e (StdinJson (JObj d)) m = await_decision m ed \<and>
              dict_get ed ''event_type'' JNull = JStr ''waiting_for_approval''"
proof -
  have "\<exists>ed. dispatch e d m = await_decision m ed \<and>
             dict_get ed ''event_type'' JNull = JStr ''waiting_for_approval''"
    by (rule dispatch_cases [of d _ e m])
       (insert assms, auto simp: suppressed_def is_permission_request_def)
  then show ?thesis
    by (simp add: main_def)
qed

subsection \<open>The record handed to \<open>send_event\<close>\<close>

lemmas table_defs = table_record_def table_row_def known_hooks_def base_record_def
  copied_def source_field_def absent_value_def

lemma submitted_main:
  assumes "dict_get d ''hook_event_name'' (JStr '''') = JStr name"
  shows "submitted (main e (StdinJson (JObj d)) m) = table_record e d name"
proof -
  consider "name = ''UserPromptSubmit''" | "name = ''PreToolUse''" | "name = ''PostToolUse''"
    | "name = ''PermissionRequest''" | "name = ''Notification''" | "name = ''Stop''"
    | "name = ''SubagentStop''" | "name = ''SessionStart''" | "name = ''SessionEnd''"
    | "name = ''PreCompact''"
    | "name \<noteq> ''UserPromptSubmit''" "name \<noteq> ''PreToolUse''" "name \<noteq> ''PostToolUse''"
      "name \<noteq> ''PermissionRequest''" "name \<noteq> ''Notification''" "name \<noteq> ''Stop''"
      "name \<noteq> ''SubagentStop''" "name \<noteq> ''SessionStart''" "name \<noteq> ''SessionEnd''"
      "name \<noteq> ''PreCompact''"
    by argo
  then show ?thesis
  proof cases
    case 1 with assms show ?thesis
      by (simp add: main_def dispatch_def table_defs Let_def)
  next
    case 2 with assms show ?thesis
      by (simp add: main_def dispatch_def table_defs Let_def dict_get_def split: option.splits)
  next
    case 3 with assms show ?thesis
      by (simp add: main_def dispatch_def table_defs Let_def dict_get_def split: option.splits)
  next
    case 4 with assms show ?thesis
      by (simp add: main_def dispatch_def table_defs Let_def)
  next
    case 5 with assms show ?thesis
      by (simp add: main_def dispatch_def table_defs Let_def)
  next
    case 6 with assms show ?thesis
      by (simp add: main_def dispatch_def table_defs Let_def)
  next
    case 7 with assms show ?thesis
      by (simp add: main_def dispatch_def table_defs Let_def)
  next
    case 8 with assms show ?thesis
      by (simp add: main_def dispatch_def table_defs Let_def)
  next
    case 9 with assms show ?thesis
      by (simp add: main_def dispatch_def table_defs Let_def)
  next
    case 10 with assms show ?thesis
      by (simp add: main_def dispatch_def table_defs Let_def)
  next
    case 11 with assms show ?thesis
      by (simp add: main_def dispatch_def table_defs Let_def py_str_def)
  qed
qed

lemma extras_Cons:
  "extras ((k, v) # r) = (if k \<in> set base_fields then extras r else (k, v) # extras r)"
  by (simp add: extras_def)

lemma keys_copied: "keys (copied worth d f) \<subseteq> {f}"
  by (auto simp: copied_def keys_def split: option.splits if_splits)

lemma copied_not_base: "f \<notin> set base_fields \<Longrightarrow> extras (copied worth d f) = copied worth d f"
  by (auto simp: copied_def extras_def split: option.splits)

lemma known_hooks_columns:
  "map_of known_hooks name = Some (ty, fs) \<Longrightarrow> set fs \<subseteq> {''tool_name'', ''tool_input'', ''tool_use_id''}"
  by (auto simp: known_hooks_def split: if_splits)

lemma table_row_columns:
  "table_row name nt = Row ty fs \<Longrightarrow>
     set fs \<subseteq> {''tool_name'', ''tool_input'', ''tool_use_id'', ''title'', ''message''}"
  using known_hooks_columns [of name]
  by (auto simp: table_row_def split: if_splits option.splits)

lemma extras_concat_copied:
  "set fs \<inter> set base_fields = {} \<Longrightarrow>
     extras (concat (map (copied worth d) fs)) = concat (map (copied worth d) fs)"
proof (induction fs)
  case Nil
  then show ?case by (simp add: extras_def)
next
  case (Cons f fs)
  then have "extras (copied worth d f) = copied worth d f"
    by (simp add: copied_not_base)
  moreover have "extras (xs @ ys) = extras xs @ extras ys" for xs ys
    by (simp add: extras_def)
  ultimately show ?case using Cons by simp
qed

lemma row_fields_not_base:
  assumes "table_row name nt = Row ty fs"
  shows "set fs \<inter> set base_fields = {}"
  using table_row_columns [OF assms] by (auto simp: base_fields_def)

text \<open>
  C1 (amended). For an inbound object whose \<open>hook_event_name\<close> is the string
  \<open>name\<close>, the record \<open>main\<close> hands to \<open>send_event\<close> has the event type of the
  table row of \<open>name\<close> and, beyond the base fields, exactly the row's extra fields
  in the row's order: \<open>tool_name\<close> and \<open>message\<close> with the inbound value or null,
  \<open>tool_input\<close> with the inbound value or the empty object, \<open>title\<close> with the
  inbound \<open>notification_type\<close>, and \<open>tool_use_id\<close> only when the inbound value is
  present and true in Python's sense (not empty, not null). A \<open>Notification\<close> of type
  \<open>permission_prompt\<close> hands over nothing; a name outside the table gives
  \<open>notification\<close> with the message \<open>Unknown event: name\<close>.
\<close>

theorem dispatch_table_refined:
  assumes "dict_get d ''hook_event_name'' (JStr '''') = JStr name"
  shows "observed (main e (StdinJson (JObj d)) m) = expected truthy d name"
proof (cases "table_row name (dict_get d ''notification_type'' JNull)")
  case Suppressed
  then show ?thesis
    by (simp add: observed_def expected_def submitted_main [OF assms] table_record_def)
next
  case (Row ty fs)
  then show ?thesis
    using extras_concat_copied [OF row_fields_not_base [OF Row], of truthy d]
    by (simp add: observed_def expected_def submitted_main [OF assms] table_record_def
          base_record_def extras_Cons base_fields_def)
next
  case Fallback
  then show ?thesis
    by (simp add: observed_def expected_def submitted_main [OF assms] table_record_def
          base_record_def extras_def base_fields_def)
qed

theorem dispatch_table_refined_witness:
  "dict_get pre_tool ''hook_event_name'' (JStr '''') = JStr ''PreToolUse'' \<and>
   observed (main env0 (StdinJson (JObj pre_tool)) unreachable) =
     [(Some (JStr ''running_tool''),
       [(''tool_name'', JStr ''Bash''), (''tool_input'', JObj [(''command'', JStr ''ls'')]),
        (''tool_use_id'', JStr ''toolu_01'')])] \<and>
   observed (main env0 (StdinJson (JObj (hook ''Resume''))) unreachable) =
     [(Some (JStr ''notification''), [(''message'', JStr ''Unknown event: Resume'')])]"
  using dispatch_table_refined [of pre_tool "''PreToolUse''" env0 unreachable]
        dispatch_table_refined [of "hook ''Resume''" "''Resume''" env0 unreachable]
  by (simp add: pre_tool_def hook_def dict_get_def expected_def table_row_def known_hooks_def
        copied_def source_field_def absent_value_def)

text \<open>
  As the claim words it, \<open>tool_use_id\<close> is copied whenever it is present. The script
  drops a \<open>tool_use_id\<close> that is present but empty.
\<close>

theorem tool_use_id_present_but_empty:
  "map_of pre_tool_empty_id ''tool_use_id'' = Some (JStr '''') \<and>
   observed (main env0 (StdinJson (JObj pre_tool_empty_id)) unreachable)
     \<noteq> expected any_value pre_tool_empty_id ''PreToolUse''"
  by (simp add: pre_tool_empty_id_def run_defs observed_def expected_def table_row_def
        known_hooks_def copied_def source_field_def absent_value_def any_value_def
        extras_def base_fields_def env0_def unreachable_def)

subsection \<open>Nothing but the row's fields\<close>

lemma copied_value:
  "(k, v) \<in> set (copied worth d f) \<Longrightarrow> k = f \<and> v = dict_get d (source_field f) (absent_value f)"
  by (auto simp: copied_def dict_get_def source_field_def split: option.splits if_splits)

lemma keys_append: "keys (xs @ ys) = keys xs \<union> keys ys"
  by (auto simp: keys_def)

lemma keys_concat_copied: "keys (concat (map (copied worth d) fs)) \<subseteq> set fs"
  using keys_copied by (fastforce simp: keys_def)

lemma keys_base_record: "keys (base_record e d) \<subseteq> set base_fields"
  by (simp add: keys_def base_record_def base_fields_def)

lemma extras_subset: "set (extras r) \<subseteq> set r"
  by (auto simp: extras_def)

lemma extras_append: "extras (xs @ ys) = extras xs @ extras ys"
  by (simp add: extras_def)

lemma extras_base_record: "extras (base_record e d) = []"
  by (simp add: extras_def base_record_def base_fields_def)

text \<open>
  C8 (amended). For every hook kind the fields of the outbound record lie among the base
  fields and the extra fields of the kind's table row (a subset, not always a proper
  one), so no other inbound field reaches the record. Each extra field carries the
  inbound value of its source field, or that field's default when it is absent:
  \<open>title\<close> is filled from the inbound \<open>notification_type\<close>, every other field from
  the inbound field of the same name; for a name outside the table the one extra field
  is the synthesized message.
\<close>

theorem outbound_fields_within_column:
  assumes "dict_get d ''hook_event_name'' (JStr '''') = JStr name"
    and "r \<in> set (submitted (main e (StdinJson (JObj d)) m))"
  shows "keys r \<subseteq> set base_fields \<union> set (column (table_row name (dict_get d ''notification_type'' JNull)))
       \<and> (\<forall>k v. (k, v) \<in> set (extras r) \<longrightarrow>
            v = (if table_row name (dict_get d ''notification_type'' JNull) = Fallback
                 then JStr (''Unknown event: '' @ name)
                 else dict_get d (source_field k) (absent_value k)))"
proof (cases "table_row name (dict_get d ''notification_type'' JNull)")
  case Suppressed
  with assms show ?thesis
    by (simp add: submitted_main table_record_def)
next
  case (Row ty fs)
  with assms have r: "r = base_record e d @ [(''event_type'', JStr ty)] @ concat (map (copied truthy d) fs)"
    by (simp add: submitted_main table_record_def)
  have "keys [(''event_type'', JStr ty)] \<subseteq> set base_fields"
    by (simp add: keys_def base_fields_def)
  then have k: "keys r \<subseteq> set base_fields \<union> set fs"
    using keys_base_record [of e d] keys_concat_copied [of truthy d fs]
    unfolding r keys_append by blast
  have "extras r = extras (concat (map (copied truthy d) fs))"
    by (simp add: r extras_append extras_base_record extras_Cons base_fields_def)
  then have "v = dict_get d (source_field k) (absent_value k)" if "(k, v) \<in> set (extras r)" for k v
    using that extras_subset [of "concat (map (copied truthy d) fs)"] copied_value [of k v truthy d]
    by auto
  with k Row show ?thesis by (simp add: column_def)
next
  case Fallback
  with assms have r: "r = base_record e d @ [(''event_type'', JStr ''notification''),
                              (''message'', JStr (''Unknown event: '' @ name))]"
    by (simp add: submitted_main table_record_def)
  have "keys [(''event_type'', JStr ''notification''),
              (''message'', JStr (''Unknown event: '' @ name))] \<subseteq> set base_fields \<union> {''message''}"
    by (simp add: keys_def base_fields_def)
  then have k: "keys r \<subseteq> set base_fields \<union> {''message''}"
    using keys_base_record [of e d] unfolding r keys_append by blast
  have "extras r = [(''message'', JStr (''Unknown event: '' @ name))]"
    by (simp add: r extras_append extras_base_record extras_Cons base_fields_def) (simp add: extras_def)
  with k Fallback show ?thesis by (simp add: column_def)
qed

lemma submitted_idle_notice:
  "submitted (main env0 (StdinJson (JObj idle_notice)) unreachable) = [idle_record]"
  by (simp add: idle_notice_def idle_record_def run_defs env0_def unreachable_def)

theorem outbound_fields_within_column_witness:
  "dict_get idle_notice ''hook_event_name'' (JStr '''') = JStr ''Notification'' \<and>
   idle_record \<in> set (submitted (main env0 (StdinJson (JObj idle_notice)) unreachable)) \<and>
   keys idle_record \<subseteq> set base_fields \<union> {''title'', ''message''} \<and>
   dict_get idle_record ''title'' JNull = dict_get idle_notice ''notification_type'' JNull \<and>
   dict_get idle_record ''message'' JNull = dict_get idle_notice ''message'' JNull"
  using outbound_fields_within_column [of idle_notice "''Notification''" idle_record env0 unreachable]
  by (simp add: submitted_idle_notice)
     (simp add: idle_notice_def idle_record_def dict_get_def keys_def base_fields_def)

text \<open>
  As the claim words it, every extra field carries its own inbound value. An inbound
  \<open>title\<close> is not what the outbound \<open>title\<close> holds.
\<close>

theorem title_is_not_the_inbound_title:
  "\<not> (\<forall>r \<in> set (submitted (main env0 (StdinJson (JObj idle_notice)) unreachable)).
        \<forall>k v. (k, v) \<in> set (extras r) \<longrightarrow> map_of idle_notice k = Some v)"
proof
  assume "\<forall>r \<in> set (submitted (main env0 (StdinJson (JObj idle_notice)) unreachable)).
        \<forall>k v. (k, v) \<in> set (extras r) \<longrightarrow> map_of idle_notice k = Some v"
  then have "\<forall>k v. (k, v) \<in> set (extras idle_record) \<longrightarrow> map_of idle_notice k = Some v"
    by (simp add: submitted_idle_notice)
  moreover have "(''title'', JStr ''idle_prompt'') \<in> set (extras idle_record)"
    by (simp add: idle_record_def extras_def base_fields_def)
  ultimately have "map_of idle_notice ''title'' = Some (JStr ''idle_prompt'')"
    by blast
  then show False
    by (simp add: idle_notice_def)
qed

subsection \<open>The terminal field\<close>

lemma tty_of_submitted:
  assumes "r \<in> set (submitted (main e inp m))"
  shows "map_of r ''tty'' = Some (tty_field e)"
proof -
  have "\<forall>r \<in> set (submitted (dispatch e d m)). map_of r ''tty'' = Some (tty_field e)" for d
    by (rule dispatch_cases [of d _ e m]) simp_all
  then have "\<forall>r \<in> set (submitted (main e inp m)). map_of r ''tty'' = Some (tty_field e)"
    by (simp add: main_def split: stdin.splits json.splits)
  with assms show ?thesis by blast
qed

text \<open>
  C7 (amended). Every outbound record has the field \<open>tty\<close>; when terminal resolution
  fails entirely the field is present with null, not omitted. The placeholders \<open>??\<close>
  and \<open>-\<close> never reach the record, nor does an empty name: when \<open>ps\<close> fails or prints
  nothing, \<open>??\<close> or \<open>-\<close>, the value is the terminal name of standard input, or else
  that of standard output, or else null. When \<open>ps\<close> prints the name of a terminal,
  the value is that name, put under \<open>/dev/\<close> unless it is there already.
\<close>

theorem tty_present_in_every_record:
  assumes "r \<in> set (submitted (main e inp m))"
  shows "''tty'' \<in> keys r \<and>
     (\<forall>n. ps_tty e = Some n \<and> n \<notin> set ps_placeholders \<longrightarrow>
        map_of r ''tty'' =
          Some (JStr (if startswith n ''/dev/'' then n else ''/dev/'' @ n))) \<and>
     (ps_tty e = None \<or> ps_tty e = Some '''' \<or> ps_tty e = Some ''??'' \<or>
      ps_tty e = Some ''-'' \<longrightarrow>
        map_of r ''tty'' = Some (fallback_tty e))"
proof -
  have tty: "map_of r ''tty'' = Some (tty_field e)"
    using assms by (rule tty_of_submitted)
  then have "(''tty'', tty_field e) \<in> set r"
    by (rule map_of_SomeD)
  then have present: "''tty'' \<in> keys r"
    by (force simp: keys_def)
  have named: "tty_field e = JStr (if startswith n ''/dev/'' then n else ''/dev/'' @ n)"
    if "ps_tty e = Some n" "n \<notin> set ps_placeholders" for n
    using that
    by (simp add: tty_field_def get_tty_def tty_from_ps_def ps_placeholders_def)
  have unnamed: "tty_field e = fallback_tty e"
    if "ps_tty e = None \<or> ps_tty e = Some '''' \<or> ps_tty e = Some ''??'' \<or> ps_tty e = Some ''-''"
    using that
    by (auto simp: tty_field_def get_tty_def tty_from_ps_def fallback_tty_def
          split: option.splits)
  show ?thesis
    using present named unnamed by (simp add: tty)
qed

theorem tty_present_in_every_record_witness:
  "stop_record JNull \<in> set (submitted (main no_terminal (StdinJson (JObj (hook ''Stop''))) unreachable)) \<and>
   ps_tty no_terminal = Some ''??'' \<and> fallback_tty no_terminal = JNull \<and>
   ''tty'' \<in> keys (stop_record JNull) \<and>
   map_of (stop_record JNull) ''tty'' = Some JNull \<and>
   stop_record (JStr ''/dev/pts/3'')
     \<in> set (submitted (main on_stdout (StdinJson (JObj (hook ''Stop''))) unreachable)) \<and>
   ps_tty on_stdout = None \<and>
   map_of (stop_record (JStr ''/dev/pts/3'')) ''tty'' = Some (JStr ''/dev/pts/3'') \<and>
   stop_record (JStr ''/dev/ttys003'')
     \<in> set (submitted (main (env0\<lparr>ppid := 1\<rparr>) (StdinJson (JObj (hook ''Stop''))) unreachable)) \<and>
   ps_tty (env0\<lparr>ppid := 1\<rparr>) = Some ''ttys003'' \<and> ''ttys003'' \<notin> set ps_placeholders \<and>
   map_of (stop_record (JStr ''/dev/ttys003'')) ''tty'' = Some (JStr ''/dev/ttys003'')"
  using tty_present_in_every_record [of "stop_record JNull" no_terminal
          "StdinJson (JObj (hook ''Stop''))" unreachable]
        tty_present_in_every_record [of "stop_record (JStr ''/dev/pts/3'')" on_stdout
          "StdinJson (JObj (hook ''Stop''))" unreachable]
        tty_present_in_every_record [of "stop_record (JStr ''/dev/ttys003'')" "env0\<lparr>ppid := 1\<rparr>"
          "StdinJson (JObj (hook ''Stop''))" unreachable]
  by (simp add: no_terminal_def on_stdout_def env0_def hook_def unreachable_def run_defs
        stop_record_def ps_placeholders_def fallback_tty_def keys_def)

text \<open>
  As the claim words it, the field is omitted when resolution fails entirely. The
  record then still has the key, with null.
\<close>

theorem tty_null_not_omitted:
  "get_tty no_terminal = None \<and>
   \<not> (\<forall>r \<in> set (submitted (main no_terminal (StdinJson (JObj (hook ''Stop''))) unreachable)).
        ''tty'' \<notin> keys r)"
  by (simp add: no_terminal_def hook_def unreachable_def run_defs keys_def)

text \<open>
  The statement above is silent on a placeholder the script does not list. On Linux
  \<open>ps\<close> prints \<open>?\<close> for a process without a terminal; line 32 lets it pass, and the
  record then carries \<open>/dev/?\<close>.
\<close>

lemma question_mark_is_prefixed:
  "get_tty (no_terminal\<lparr>ps_tty := Some ''?''\<rparr>) = Some ''/dev/?''"
  by (simp add: no_terminal_def get_tty_def tty_from_ps_def startswith_def)

subsection \<open>Sends and socket calls\<close>

text \<open>
  C5 (amended). An invocation whose standard input parses to a JSON object calls
  \<open>send_event\<close> exactly once, except for a \<open>Notification\<close> of type
  \<open>permission_prompt\<close>, which calls it not at all, makes no socket call and exits
  with 0. Input that does not parse, or parses to something else than an object, makes
  no call either. A call writes to the socket once when the socket is created and
  connected, and not at all otherwise.
\<close>

theorem one_send_per_object_input:
  "length (submitted (main e inp m)) = expected_sends inp \<and>
   writes (sock_ops (main e inp m)) =
     (if socket_ok m \<and> connect_ok m then expected_sends inp else 0) \<and>
   (\<forall>d. inp = StdinJson (JObj d) \<and> suppressed d \<longrightarrow>
      main e inp m = \<lparr>status = Exit 0, stdout = [], submitted = [], sock_ops = []\<rparr>)"
proof (cases inp)
  case StdinInvalid
  then show ?thesis by (simp add: main_def expected_sends_def writes_def)
next
  case (StdinRaises x)
  then show ?thesis by (simp add: main_def expected_sends_def writes_def)
next
  case (StdinJson v)
  show ?thesis
  proof (cases "is_object v")
    case False
    with StdinJson show ?thesis
      by (cases v) (simp_all add: main_def expected_sends_def writes_def is_object_def)
  next
    case True
    then obtain d where v: "v = JObj d" by (cases v) (simp_all add: is_object_def)
    have "length (submitted (dispatch e d m)) = (if suppressed d then 0 else 1) \<and>
          writes (sock_ops (dispatch e d m)) =
            (if socket_ok m \<and> connect_ok m then (if suppressed d then 0 else 1) else 0) \<and>
          (suppressed d \<longrightarrow> dispatch e d m =
             \<lparr>status = Exit 0, stdout = [], submitted = [], sock_ops = []\<rparr>)"
      by (rule dispatch_cases [of d _ e m])
         (simp_all add: writes_Nil sock_ops_await_decision writes_send_event
            fire_and_forget_result)
    with StdinJson v show ?thesis
      by (simp add: main_def expected_sends_def)
  qed
qed

theorem one_send_per_object_input_witness:
  "suppressed permission_prompt \<and>
   main env0 (StdinJson (JObj permission_prompt)) (reachable RecvRaises) =
     \<lparr>status = Exit 0, stdout = [], submitted = [], sock_ops = []\<rparr> \<and>
   writes (sock_ops (main env0 (StdinJson (JObj (hook ''Stop''))) (reachable RecvRaises))) = 1"
  using one_send_per_object_input [of env0 "StdinJson (JObj permission_prompt)" "reachable RecvRaises"]
        one_send_per_object_input [of env0 "StdinJson (JObj (hook ''Stop''))" "reachable RecvRaises"]
  by (simp add: permission_prompt_def hook_def suppressed_def dict_get_def expected_sends_def
        reachable_def)

text \<open>
  As the claim words it, every invocation but the suppressed one writes once. Neither
  an invocation with unparsable input nor one that finds no monitor listening writes.
\<close>

theorem invocations_without_a_write:
  "writes (sock_ops (main env0 StdinInvalid (reachable RecvRaises))) = 0 \<and>
   \<not> suppressed (hook ''Stop'') \<and>
   writes (sock_ops (main env0 (StdinJson (JObj (hook ''Stop''))) unreachable)) = 0"
  by (simp add: hook_def unreachable_def run_defs env0_def writes_def suppressed_def)

text \<open>
  C6. For an outbound record whose \<open>event_type\<close> is not \<open>waiting_for_approval\<close>,
  \<open>send_event\<close> never calls \<open>recv\<close>, and what the monitor would have answered
  changes nothing of its result. In a whole run, a \<open>recv\<close> happens only when the
  inbound hook is \<open>PermissionRequest\<close>.
\<close>

theorem recv_only_for_approval:
  "(dict_get ev ''event_type'' JNull \<noteq> JStr ''waiting_for_approval'' \<longrightarrow>
      Recv n \<notin> set (snd (send_event m ev)) \<and>
      send_event (m\<lparr>on_recv := reply\<rparr>) ev = send_event m ev) \<and>
   (Recv n \<in> set (sock_ops (main e inp m)) \<longrightarrow>
      (\<exists>d. inp = StdinJson (JObj d) \<and> is_permission_request d))"
proof -
  have "Recv n \<in> set (sock_ops (dispatch e d m)) \<longrightarrow> is_permission_request d" for d
    by (rule dispatch_cases [of d _ e m])
       (simp_all add: fire_and_forget_result no_recv_unless_approval)
  then have "Recv n \<in> set (sock_ops (main e inp m)) \<longrightarrow>
      (\<exists>d. inp = StdinJson (JObj d) \<and> is_permission_request d)"
    by (simp add: main_def split: stdin.splits json.splits)
  then show ?thesis
    by (simp add: send_event_def)
qed

theorem recv_only_for_approval_witness:
  "dict_get [(''event_type'', JStr ''waiting_for_input'')] ''event_type'' JNull
     \<noteq> JStr ''waiting_for_approval'' \<and>
   send_event (reachable (RecvBytes (JsonText (JObj [(''decision'', JStr ''allow'')]))))
       [(''event_type'', JStr ''waiting_for_input'')] =
     send_event (reachable RecvRaises) [(''event_type'', JStr ''waiting_for_input'')] \<and>
   Recv 4096 \<in> set (sock_ops (main env0 (StdinJson (JObj (hook ''PermissionRequest'')))
                       (reachable RecvRaises))) \<and>
   is_permission_request (hook ''PermissionRequest'') \<and>
   Recv 4096 \<notin> set (sock_ops (main env0 (StdinJson (JObj (hook ''Stop'')))
       (reachable (RecvBytes (JsonText (JObj [(''decision'', JStr ''allow'')]))))))"
  using recv_only_for_approval [of "[(''event_type'', JStr ''waiting_for_input'')]" 4096
          "reachable RecvRaises" "RecvBytes (JsonText (JObj [(''decision'', JStr ''allow'')]))"
          env0 "StdinJson (JObj (hook ''Stop''))"]
  by (simp add: reachable_def hook_def is_permission_request_def run_defs env0_def)




subsection \<open>The decision relay\<close>

text \<open>
  C2. For an invocation whose hook is \<open>PermissionRequest\<close>: a reply with decision
  \<open>allow\<close> prints exactly the allow directive and exits with 0; a reply with decision
  \<open>deny\<close> and a reason that is a non-empty string \<open>x\<close> prints exactly the deny
  directive with message \<open>x\<close> and exits with 0; \<open>deny\<close> without a reason prints
  the deny directive with the fixed default text and exits with 0; decision \<open>ask\<close>, a
  reply without a decision, no reply, a connection error and a timeout print nothing
  and exit with 0.
\<close>

theorem permission_decision_relay:
  assumes "is_permission_request d"
  shows
    "(replies m (JObj r) \<and> map_of r ''decision'' = Some (JStr ''allow'') \<longrightarrow>
        stdout (main e (StdinJson (JObj d)) m) = [allow_directive] \<and>
        status (main e (StdinJson (JObj d)) m) = Exit 0) \<and>
     (replies m (JObj r) \<and> map_of r ''decision'' = Some (JStr ''deny'') \<and>
      map_of r ''reason'' = Some (JStr x) \<and> x \<noteq> [] \<longrightarrow>
        stdout (main e (StdinJson (JObj d)) m) = [deny_directive (JStr x)] \<and>
        status (main e (StdinJson (JObj d)) m) = Exit 0) \<and>
     (replies m (JObj r) \<and> map_of r ''decision'' = Some (JStr ''deny'') \<and>
      map_of r ''reason'' = None \<longrightarrow>
        stdout (main e (StdinJson (JObj d)) m) = [deny_directive (JStr default_deny_message)] \<and>
        status (main e (StdinJson (JObj d)) m) = Exit 0) \<and>
     (replies m (JObj r) \<and>
      (map_of r ''decision'' = Some (JStr ''ask'') \<or> map_of r ''decision'' = None) \<longrightarrow>
        stdout (main e (StdinJson (JObj d)) m) = [] \<and>
        status (main e (StdinJson (JObj d)) m) = Exit 0) \<and>
     (no_decision m \<longrightarrow>
        stdout (main e (StdinJson (JObj d)) m) = [] \<and>
        status (main e (StdinJson (JObj d)) m) = Exit 0)"
proof -
  obtain ed where run: "main e (StdinJson (JObj d)) m = await_decision m ed"
    and ty: "dict_get ed ''event_type'' JNull = JStr ''waiting_for_approval''"
    using main_permission_request [OF assms] by blast
  have allow: "stdout (await_decision m ed) = [allow_directive] \<and>
               status (await_decision m ed) = Exit 0"
    if "replies m (JObj r)" "map_of r ''decision'' = Some (JStr ''allow'')"
    using that await_reply [OF ty that(1)] by (auto simp: dict_get_Some)
  have deny: "stdout (await_decision m ed) = [deny_directive (JStr x)] \<and>
              status (await_decision m ed) = Exit 0"
    if "replies m (JObj r)" "map_of r ''decision'' = Some (JStr ''deny'')"
       "map_of r ''reason'' = Some (JStr x)" "x \<noteq> []"
    using that await_reply [OF ty that(1)] by (auto simp: dict_get_Some)
  have deny_default: "stdout (await_decision m ed) = [deny_directive (JStr default_deny_message)] \<and>
              status (await_decision m ed) = Exit 0"
    if "replies m (JObj r)" "map_of r ''decision'' = Some (JStr ''deny'')"
       "map_of r ''reason'' = None"
    using that await_reply [OF ty that(1)] by (auto simp: dict_get_Some dict_get_None)
  have ask: "stdout (await_decision m ed) = [] \<and> status (await_decision m ed) = Exit 0"
    if "replies m (JObj r)"
       "map_of r ''decision'' = Some (JStr ''ask'') \<or> map_of r ''decision'' = None"
    using that await_reply [OF ty that(1)] by (auto simp: dict_get_Some dict_get_None)
  show ?thesis
    unfolding run using allow deny deny_default ask await_no_decision [OF ty] by blast
qed

theorem permission_decision_relay_witness:
  "is_permission_request permission_request \<and>
   main env0 (StdinJson (JObj permission_request)) (says [(''decision'', JStr ''allow'')]) =
     \<lparr>status = Exit 0, stdout = [allow_directive],
      submitted = [[(''session_id'', JStr ''s1''), (''cwd'', JStr ''''), (''pid'', JInt 4242),
                    (''tty'', JStr ''/dev/ttys003''), (''event_type'', JStr ''waiting_for_approval''),
                    (''tool_name'', JStr ''Bash''),
                    (''tool_input'', JObj [(''command'', JStr ''rm -r build'')])]],
      sock_ops = snd (send_event (says [(''decision'', JStr ''allow'')])
                   [(''session_id'', JStr ''s1''), (''cwd'', JStr ''''), (''pid'', JInt 4242),
                    (''tty'', JStr ''/dev/ttys003''), (''event_type'', JStr ''waiting_for_approval''),
                    (''tool_name'', JStr ''Bash''),
                    (''tool_input'', JObj [(''command'', JStr ''rm -r build'')])])\<rparr> \<and>
   stdout (main env0 (StdinJson (JObj permission_request))
             (says [(''decision'', JStr ''deny''), (''reason'', JStr ''x'')])) =
     [deny_directive (JStr ''x'')] \<and>
   stdout (main env0 (StdinJson (JObj permission_request)) (says [(''decision'', JStr ''deny'')])) =
     [deny_directive (JStr ''Denied by user via Claude Web Monitor'')] \<and>
   stdout (main env0 (StdinJson (JObj permission_request)) (says [(''decision'', JStr ''ask'')])) = [] \<and>
   stdout (main env0 (StdinJson (JObj permission_request)) (says [(''reason'', JStr ''x'')])) = [] \<and>
   no_decision unreachable \<and>
   main env0 (StdinJson (JObj permission_request)) unreachable =
     \<lparr>status = Exit 0, stdout = [],
      submitted = [[(''session_id'', JStr ''s1''), (''cwd'', JStr ''''), (''pid'', JInt 4242),
                    (''tty'', JStr ''/dev/ttys003''), (''event_type'', JStr ''waiting_for_approval''),
                    (''tool_name'', JStr ''Bash''),
                    (''tool_input'', JObj [(''command'', JStr ''rm -r build'')])]],
      sock_ops = [Socket, SetTimeout 300, Connect ''/tmp/claude-web.sock'']\<rparr>"
  using permission_decision_relay [of permission_request "says [(''decision'', JStr ''allow'')]"
          "[(''decision'', JStr ''allow'')]" env0 "''x''"]
        permission_decision_relay [of permission_request
          "says [(''decision'', JStr ''deny''), (''reason'', JStr ''x'')]"
          "[(''decision'', JStr ''deny''), (''reason'', JStr ''x'')]" env0 "''x''"]
        permission_decision_relay [of permission_request "says [(''decision'', JStr ''deny'')]"
          "[(''decision'', JStr ''deny'')]" env0 "''x''"]
        permission_decision_relay [of permission_request "says [(''decision'', JStr ''ask'')]"
          "[(''decision'', JStr ''ask'')]" env0 "''x''"]
        permission_decision_relay [of permission_request unreachable "[]" env0 "''x''"]
  by (simp add: permission_request_def says_def reachable_def unreachable_def env0_def
        is_permission_request_def run_defs allow_directive_def deny_directive_def
        no_decision_def connection_error_def)

text \<open>
  C3. The claim is that, for input that parses to an object, every communication
  failure with the monitor, a malformed reply included, is absorbed and the run exits
  with 0. The script does not do that for every malformed reply: the handler of
  \<open>send_event\<close> catches \<open>OSError\<close> and \<open>JSONDecodeError\<close>, so a reply whose bytes are
  not valid UTF-8 leaves \<open>response.decode()\<close> as an uncaught \<open>UnicodeDecodeError\<close>,
  a reply that is JSON but no object (here a one-element array) leaves
  \<open>response.get\<close> in \<open>main\<close> as an uncaught \<open>AttributeError\<close>, and a reply
  nested too deep leaves \<open>json.loads\<close> as an uncaught \<open>RecursionError\<close>. The
  theorem runs the script on all three.
\<close>

theorem undecodable_reply_escapes:
  "is_permission_request permission_request \<and>
   status (main env0 (StdinJson (JObj permission_request)) (reachable (RecvBytes InvalidUtf8))) =
     Uncaught UnicodeDecodeError \<and>
   status (main env0 (StdinJson (JObj permission_request))
             (reachable (RecvBytes (JsonText (JArr [JStr ''allow''])))))
     = Uncaught AttributeError \<and>
   status (main env0 (StdinJson (JObj permission_request)) (reachable (RecvBytes NestedTooDeep))) =
     Uncaught RecursionError"
  by (simp add: permission_request_def reachable_def env0_def is_permission_request_def run_defs)


lemma unreachable_channel_silent:
  assumes "connection_error m"
  shows "status (main e (StdinJson (JObj d)) m) = Exit 0 \<and> stdout (main e (StdinJson (JObj d)) m) = []"
proof -
  have nd: "no_decision m"
    using assms by (simp add: no_decision_def)
  have "status (dispatch e d m) = Exit 0 \<and> stdout (dispatch e d m) = []"
    by (rule dispatch_cases [of d _ e m])
       (insert nd, simp_all add: fire_and_forget_result await_no_decision)
  then show ?thesis by (simp add: main_def)
qed




subsection \<open>Input that is not an object\<close>

text \<open>
  C10. When standard input holds valid JSON whose top-level value is not an object,
  \<open>main\<close> ends in an uncaught \<open>AttributeError\<close> at its first field access: it takes
  neither the parse-failure exit nor any exit with status 0, prints nothing and never
  touches the socket.
\<close>

theorem non_object_input_raises:
  "\<not> is_object v \<Longrightarrow>
     main e (StdinJson v) m =
       \<lparr>status = Uncaught AttributeError, stdout = [], submitted = [], sock_ops = []\<rparr>"
  by (cases v) (simp_all add: main_def is_object_def)

theorem non_object_input_raises_witness:
  "\<not> is_object (JArr []) \<and>
   status (main env0 (StdinJson (JArr [])) unreachable) = Uncaught AttributeError \<and>
   status (main env0 (StdinJson (JStr ''Stop'')) unreachable) \<noteq> Exit 1 \<and>
   status (main env0 (StdinJson (JInt 7)) unreachable) \<noteq> Exit 0"
  using non_object_input_raises [of "JArr []" env0 unreachable]
        non_object_input_raises [of "JStr ''Stop''" env0 unreachable]
        non_object_input_raises [of "JInt 7" env0 unreachable]
  by (simp add: is_object_def)

end
